theory Spec2Isabelle
  imports Main "HOL-Library.List_Lexorder" "HOL-Library.Char_ord"
begin

section \<open>Offline-first audit synchronisation: data model\<close>

text \<open>
  The embedding follows the TypeScript services of the sandbox:
  \<^verbatim>\<open>AuditSyncService\<close>, \<^verbatim>\<open>SyncStateService\<close>, \<^verbatim>\<open>AuditStateService\<close>,
  \<^verbatim>\<open>AuditStorageService\<close>, \<^verbatim>\<open>AuditTransformationService\<close> and
  \<^verbatim>\<open>AuditActionService\<close>.

  Conventions of the model.
  \<^item> A JavaScript \<^verbatim>\<open>number\<close> that holds a millisecond timestamp or a counter is an
    \<open>int\<close>; a JavaScript string is a \<open>string\<close> (its characters read as code units
    below 256).
  \<^item> Every reading of the clock (\<^verbatim>\<open>Date.now()\<close>, \<^verbatim>\<open>new Date()\<close>) and of
    \<^verbatim>\<open>Math.random()\<close> is an explicit argument of the function that reads it.
  \<^item> The answer of the remote API to a call is an explicit argument: \<open>Inl e\<close> when the
    observable errors with \<open>e\<close>, \<open>Inr v\<close> when it emits \<open>v\<close>.
  \<^item> The signal \<^verbatim>\<open>NetworkStatusService.isOnline()\<close> is an explicit boolean argument.
  \<^item> A request to the IndexedDB store completes at the point where it is issued, before
    the next statement of the caller runs. The two primary requests that have an error
    handler in the orchestrator (the save of \<^verbatim>\<open>createAudit\<close> and the soft delete of
    \<^verbatim>\<open>deleteAudit\<close>) take a flag that says whether the request succeeded; every
    other request succeeds.
\<close>

subsection \<open>Records of \<^verbatim>\<open>audit.model.ts\<close> and \<^verbatim>\<open>audit-storage.service.ts\<close>\<close>

record ApiAuditRecord =
  ExternalId :: string
  SlotNumber :: string
  PrimaryBarcode :: string
  WarehouseLogistics :: string
  Comments :: string
  DateReceived :: string
  TimeReceived :: string
  Auditors :: string
  WarehouseLocation :: string
  Synced :: "int option"

text \<open>The domain record; \<open>dateReceived\<close> stands for \<^verbatim>\<open>new Date(s)\<close> and keeps the
  string \<open>s\<close> the date was built from.\<close>

record AuditRecord =
  externalId :: string
  slotNumber :: string
  primaryBarcode :: string
  warehouseLogistics :: string
  comments :: string
  dateReceived :: string
  timeReceived :: string
  auditors :: string
  warehouseLocation :: string
  synced :: "bool option"

record CreateAuditRequest =
  req_slotNumber :: string
  req_primaryBarcode :: string
  req_warehouseLogistics :: string
  req_comments :: string
  req_auditors :: string
  req_warehouseLocation :: string


datatype item_status = synced_st | pending_st | deleted_st

record OfflineAuditItem = ApiAuditRecord +
  x_localId :: string
  x_status :: item_status
  x_lastModified :: int
  x_conflictData :: "ApiAuditRecord option"

subsection \<open>\<^verbatim>\<open>AuditSyncService\<close>: conflict detection and resolution\<close>

record AuditConflictData =
  c_localAudit :: ApiAuditRecord
  c_serverAudit :: ApiAuditRecord
  c_localModified :: int
  c_serverModified :: int

datatype resolution = use_local | use_server

text \<open>
  \<^verbatim>\<open>detectConflict(localAudit, serverAudit, localModified)\<close>. The source computes
  \<^verbatim>\<open>serverModified = new Date().getTime()\<close> inside the function; that clock reading is
  the argument \<open>now\<close>.
\<close>

definition detectConflict ::
  "int \<Rightarrow> ApiAuditRecord \<Rightarrow> ApiAuditRecord \<Rightarrow> int \<Rightarrow> AuditConflictData option" where
  "detectConflict now la sa lm =
     (let sm = now;
          hasConflict = (lm > sm \<and>
             (SlotNumber la \<noteq> SlotNumber sa \<or>
              PrimaryBarcode la \<noteq> PrimaryBarcode sa \<or>
              WarehouseLogistics la \<noteq> WarehouseLogistics sa \<or>
              Comments la \<noteq> Comments sa \<or>
              Auditors la \<noteq> Auditors sa \<or>
              WarehouseLocation la \<noteq> WarehouseLocation sa))
      in if hasConflict
         then Some \<lparr>c_localAudit = la, c_serverAudit = sa, c_localModified = lm,
                    c_serverModified = sm\<rparr>
         else None)"

definition resolveConflict :: "AuditConflictData \<Rightarrow> resolution" where
  "resolveConflict conflict =
     (if c_localModified conflict > c_serverModified conflict then use_local else use_server)"


subsection \<open>\<^verbatim>\<open>SyncStateService\<close>\<close>

datatype SyncStatus = st_idle | st_syncing | st_success | st_error

datatype SyncOperation = op_create | op_update | op_delete | op_fetch

record ConflictInfo =
  ci_itemId :: string
  ci_localModified :: int
  ci_serverModified :: int
  ci_resolved :: bool

record SyncState =
  syncStatus :: SyncStatus
  currentOperation :: "SyncOperation option"
  currentItemId :: "string option"
  lastSyncTime :: "int option"
  syncError :: "string option"
  pendingRecordsCount :: int
  conflicts :: "ConflictInfo list"

definition sync_initial :: SyncState where
  "sync_initial =
     \<lparr>syncStatus = st_idle, currentOperation = None, currentItemId = None,
      lastSyncTime = None, syncError = None, pendingRecordsCount = 0, conflicts = []\<rparr>"

definition isSyncing :: "SyncState \<Rightarrow> bool" where
  "isSyncing s = (syncStatus s = st_syncing)"

definition hasError :: "SyncState \<Rightarrow> bool" where
  "hasError s = (syncError s \<noteq> None)"

text \<open>\<^verbatim>\<open>setSyncStatus(status)\<close>; \<open>t\<close> is the \<^verbatim>\<open>new Date()\<close> taken on success.\<close>

definition setSyncStatus :: "int \<Rightarrow> SyncStatus \<Rightarrow> SyncState \<Rightarrow> SyncState" where
  "setSyncStatus t status s =
     (let s1 = s\<lparr>syncStatus := status\<rparr>
      in if status = st_success then s1\<lparr>lastSyncTime := Some t, syncError := None\<rparr> else s1)"

definition setCurrentOperation ::
  "SyncOperation option \<Rightarrow> string option \<Rightarrow> SyncState \<Rightarrow> SyncState" where
  "setCurrentOperation operation itemId s =
     s\<lparr>currentOperation := operation, currentItemId := itemId\<rparr>"

text \<open>The truth value JavaScript gives \<^verbatim>\<open>if (error)\<close> for a \<^verbatim>\<open>string | null\<close>:
  \<^verbatim>\<open>null\<close> and the empty string are false.\<close>

fun truthy :: "string option \<Rightarrow> bool" where
  "truthy None = False"
| "truthy (Some e) = (e \<noteq> [])"

definition setSyncError :: "string option \<Rightarrow> SyncState \<Rightarrow> SyncState" where
  "setSyncError err s =
     (let s1 = s\<lparr>syncError := err\<rparr>
      in if truthy err then s1\<lparr>syncStatus := st_error\<rparr> else s1)"

definition clearSyncError :: "SyncState \<Rightarrow> SyncState" where
  "clearSyncError s =
     (let s1 = s\<lparr>syncError := None\<rparr>
      in if syncStatus s1 = st_error then s1\<lparr>syncStatus := st_idle\<rparr> else s1)"

definition setPendingRecordsCount :: "int \<Rightarrow> SyncState \<Rightarrow> SyncState" where
  "setPendingRecordsCount count s = s\<lparr>pendingRecordsCount := max 0 count\<rparr>"

definition addConflict :: "string \<Rightarrow> int \<Rightarrow> int \<Rightarrow> SyncState \<Rightarrow> SyncState" where
  "addConflict itemId lm sm s =
     (let conflict = \<lparr>ci_itemId = itemId, ci_localModified = lm, ci_serverModified = sm,
                       ci_resolved = False\<rparr>
      in s\<lparr>conflicts :=
           (case find (\<lambda>c. ci_itemId c = itemId) (conflicts s) of
              Some existing \<Rightarrow> map (\<lambda>c. if ci_itemId c = itemId then conflict else c) (conflicts s)
            | None \<Rightarrow> conflicts s @ [conflict])\<rparr>)"

definition removeConflict :: "string \<Rightarrow> SyncState \<Rightarrow> SyncState" where
  "removeConflict itemId s = s\<lparr>conflicts := filter (\<lambda>c. ci_itemId c \<noteq> itemId) (conflicts s)\<rparr>"

definition markConflictResolved :: "string \<Rightarrow> SyncState \<Rightarrow> SyncState" where
  "markConflictResolved itemId s =
     s\<lparr>conflicts := map (\<lambda>c. if ci_itemId c = itemId then c\<lparr>ci_resolved := True\<rparr> else c)
                        (conflicts s)\<rparr>"

definition clearConflicts :: "SyncState \<Rightarrow> SyncState" where
  "clearConflicts s = s\<lparr>conflicts := []\<rparr>"

definition updateLastSyncTime :: "int \<Rightarrow> SyncState \<Rightarrow> SyncState" where
  "updateLastSyncTime t s = s\<lparr>lastSyncTime := Some t\<rparr>"

definition sync_reset :: "SyncState \<Rightarrow> SyncState" where
  "sync_reset s =
     s\<lparr>syncStatus := st_idle, currentOperation := None, currentItemId := None,
       lastSyncTime := None, syncError := None, pendingRecordsCount := 0, conflicts := []\<rparr>"

text \<open>A call of one of the mutation methods of \<^verbatim>\<open>SyncStateService\<close>, and a sequence of
  such calls applied to the initial state of the service.\<close>

datatype sync_call =
    SetSyncStatus int SyncStatus
  | SetCurrentOperation "SyncOperation option" "string option"
  | SetSyncError "string option"
  | ClearSyncError
  | SetPendingRecordsCount int
  | AddConflict string int int
  | RemoveConflict string
  | MarkConflictResolved string
  | ClearConflicts
  | UpdateLastSyncTime int
  | SyncReset

fun sync_apply :: "SyncState \<Rightarrow> sync_call \<Rightarrow> SyncState" where
  "sync_apply s (SetSyncStatus t status) = setSyncStatus t status s"
| "sync_apply s (SetCurrentOperation operation itemId) = setCurrentOperation operation itemId s"
| "sync_apply s (SetSyncError err) = setSyncError err s"
| "sync_apply s ClearSyncError = clearSyncError s"
| "sync_apply s (SetPendingRecordsCount n) = setPendingRecordsCount n s"
| "sync_apply s (AddConflict itemId lm sm) = addConflict itemId lm sm s"
| "sync_apply s (RemoveConflict itemId) = removeConflict itemId s"
| "sync_apply s (MarkConflictResolved itemId) = markConflictResolved itemId s"
| "sync_apply s ClearConflicts = clearConflicts s"
| "sync_apply s (UpdateLastSyncTime t) = updateLastSyncTime t s"
| "sync_apply s SyncReset = sync_reset s"

definition sync_run_calls :: "sync_call list \<Rightarrow> SyncState" where
  "sync_run_calls cs = foldl sync_apply sync_initial cs"

subsection \<open>\<^verbatim>\<open>AuditStateService\<close>: the active view\<close>

record AuditState =
  audits :: "AuditRecord list"
  selectedAudit :: "AuditRecord option"
  loading :: bool
  error :: "string option"

definition state_initial :: AuditState where
  "state_initial = \<lparr>audits = [], selectedAudit = None, loading = False, error = None\<rparr>"

definition setAudits :: "AuditRecord list \<Rightarrow> AuditState \<Rightarrow> AuditState" where
  "setAudits as u = u\<lparr>audits := as\<rparr>"

definition addAudit :: "AuditRecord \<Rightarrow> AuditState \<Rightarrow> AuditState" where
  "addAudit a u = u\<lparr>audits := audits u @ [a]\<rparr>"

definition state_updateAudit :: "AuditRecord \<Rightarrow> AuditState \<Rightarrow> AuditState" where
  "state_updateAudit updatedAudit u =
     u\<lparr>audits := map (\<lambda>a. if externalId a = externalId updatedAudit then updatedAudit else a)
                     (audits u),
       selectedAudit :=
         (case selectedAudit u of
            None \<Rightarrow> None
          | Some sel \<Rightarrow>
              if externalId sel = externalId updatedAudit then Some updatedAudit else Some sel)\<rparr>"

definition removeAudit :: "string \<Rightarrow> AuditState \<Rightarrow> AuditState" where
  "removeAudit auditId u =
     u\<lparr>audits := filter (\<lambda>a. externalId a \<noteq> auditId) (audits u),
       selectedAudit :=
         (case selectedAudit u of
            None \<Rightarrow> None
          | Some sel \<Rightarrow> if externalId sel = auditId then None else Some sel)\<rparr>"

definition state_selectAudit :: "AuditRecord option \<Rightarrow> AuditState \<Rightarrow> AuditState" where
  "state_selectAudit a u = u\<lparr>selectedAudit := a\<rparr>"

definition setLoading :: "bool \<Rightarrow> AuditState \<Rightarrow> AuditState" where
  "setLoading b u = u\<lparr>loading := b\<rparr>"

definition setError :: "string option \<Rightarrow> AuditState \<Rightarrow> AuditState" where
  "setError e u = u\<lparr>error := e\<rparr>"

definition state_clearError :: "AuditState \<Rightarrow> AuditState" where
  "state_clearError u = u\<lparr>error := None\<rparr>"

definition state_reset :: "AuditState \<Rightarrow> AuditState" where
  "state_reset u = u\<lparr>audits := [], selectedAudit := None, loading := False, error := None\<rparr>"

subsection \<open>Clock, random source and strings\<close>

text \<open>What one operation reads from its surroundings: \<open>now\<close> is \<^verbatim>\<open>Date.now()\<close>,
  \<open>rnd\<close> the nine characters \<^verbatim>\<open>Math.random().toString(36).substring(2, 11)\<close>,
  \<open>today\<close> is \<^verbatim>\<open>new Date().toISOString().split('T')[0]\<close> and \<open>timeOfDay\<close> is
  \<^verbatim>\<open>new Date().toTimeString().split(' ')[0]\<close>. The readings taken while one operation
  runs are identified.\<close>

record clock =
  now :: int
  rnd :: string
  today :: string
  timeOfDay :: string

text \<open>Decimal rendering of a number inside a template literal.\<close>

function dec_nat :: "nat \<Rightarrow> string" where
  "dec_nat n =
     (if n < 10 then [''0123456789'' ! n]
      else dec_nat (n div 10) @ [''0123456789'' ! (n mod 10)])"
  by pat_completeness auto
termination
  by (relation "measure id") auto

declare dec_nat.simps [simp del]

definition dec :: "int \<Rightarrow> string" where
  "dec i = (if i < 0 then CHR ''-'' # dec_nat (nat (- i)) else dec_nat (nat i))"

definition startsWith :: "string \<Rightarrow> string \<Rightarrow> bool" where
  "startsWith s p = (take (length p) s = p)"

text \<open>\<^verbatim>\<open>String.prototype.trim\<close> on code units below 256: TAB, LF, VT, FF, CR, SPACE
  and NBSP are removed at both ends.\<close>

definition js_whitespace :: "char \<Rightarrow> bool" where
  "js_whitespace c = (of_char c \<in> {9, 10, 11, 12, 13, 32, 160 :: nat})"

definition trim :: "string \<Rightarrow> string" where
  "trim s = rev (dropWhile js_whitespace (rev (dropWhile js_whitespace s)))"

definition is_digit :: "char \<Rightarrow> bool" where
  "is_digit c = (48 \<le> (of_char c :: nat) \<and> (of_char c :: nat) \<le> 57)"

fun join_comma :: "string list \<Rightarrow> string" where
  "join_comma [] = []"
| "join_comma [x] = x"
| "join_comma (x # y # ys) = x @ '', '' @ join_comma (y # ys)"

subsection \<open>\<^verbatim>\<open>AuditStorageService\<close>: the durable store\<close>

text \<open>The object store \<^verbatim>\<open>audits\<close> has key path \<^verbatim>\<open>ExternalId\<close>: it holds at most one
  record per key and \<^verbatim>\<open>getAll\<close> returns the records in ascending key order. The store
  is the list of its records in that order.\<close>

type_synonym audit_store = "OfflineAuditItem list"

definition store_get :: "string \<Rightarrow> audit_store \<Rightarrow> OfflineAuditItem option" where
  "store_get k st = find (\<lambda>a. ExternalId a = k) st"

definition store_put :: "OfflineAuditItem \<Rightarrow> audit_store \<Rightarrow> audit_store" where
  "store_put it st =
     (if \<exists>a \<in> set st. ExternalId a = ExternalId it
      then map (\<lambda>a. if ExternalId a = ExternalId it then it else a) st
      else insort_key ExternalId it st)"

definition store_delete :: "string \<Rightarrow> audit_store \<Rightarrow> audit_store" where
  "store_delete k st = filter (\<lambda>a. ExternalId a \<noteq> k) st"

definition generateLocalId :: "clock \<Rightarrow> string" where
  "generateLocalId env = ''local_'' @ dec (now env) @ ''_'' @ rnd env"

definition getAllItems :: "audit_store \<Rightarrow> OfflineAuditItem list" where
  "getAllItems st = filter (\<lambda>audit. x_status audit \<noteq> deleted_st) st"

definition getItem :: "string \<Rightarrow> audit_store \<Rightarrow> OfflineAuditItem option" where
  "getItem k st =
     (case store_get k st of
        None \<Rightarrow> None
      | Some audit \<Rightarrow> if x_status audit \<noteq> deleted_st then Some audit else None)"

text \<open>\<^verbatim>\<open>saveItem(audit, status)\<close> returns the stored record and the new store.\<close>

definition saveItem ::
  "clock \<Rightarrow> ApiAuditRecord \<Rightarrow> item_status \<Rightarrow> audit_store \<Rightarrow> OfflineAuditItem \<times> audit_store" where
  "saveItem env audit status st =
     (let offlineAudit =
            \<lparr>ExternalId = ExternalId audit, SlotNumber = SlotNumber audit,
             PrimaryBarcode = PrimaryBarcode audit,
             WarehouseLogistics = WarehouseLogistics audit, Comments = Comments audit,
             DateReceived = DateReceived audit, TimeReceived = TimeReceived audit,
             Auditors = Auditors audit, WarehouseLocation = WarehouseLocation audit,
             Synced = Synced audit,
             x_localId = (if ExternalId audit \<noteq> [] then ExternalId audit
                          else generateLocalId env),
             x_status = status, x_lastModified = now env, x_conflictData = None\<rparr>
      in (offlineAudit, store_put offlineAudit st))"

definition deleteItem :: "clock \<Rightarrow> string \<Rightarrow> audit_store \<Rightarrow> audit_store" where
  "deleteItem env k st =
     (case store_get k st of
        None \<Rightarrow> st
      | Some audit \<Rightarrow>
          store_put (audit\<lparr>x_status := deleted_st, x_lastModified := now env\<rparr>) st)"

definition getPendingItems :: "audit_store \<Rightarrow> OfflineAuditItem list" where
  "getPendingItems st = filter (\<lambda>audit. x_status audit = pending_st) st"

definition getDeletedItems :: "audit_store \<Rightarrow> OfflineAuditItem list" where
  "getDeletedItems st = filter (\<lambda>audit. x_status audit = deleted_st) st"

definition markAsSynced :: "clock \<Rightarrow> string \<Rightarrow> audit_store \<Rightarrow> audit_store" where
  "markAsSynced env k st =
     (case store_get k st of
        None \<Rightarrow> st
      | Some audit \<Rightarrow>
          store_put (audit\<lparr>x_status := synced_st, x_lastModified := now env\<rparr>) st)"

definition removeItem :: "string \<Rightarrow> audit_store \<Rightarrow> audit_store" where
  "removeItem k st = store_delete k st"

subsection \<open>\<^verbatim>\<open>AuditTransformationService\<close>\<close>

definition transformApiAuditToAudit :: "'a ApiAuditRecord_scheme \<Rightarrow> AuditRecord" where
  "transformApiAuditToAudit apiAudit =
     \<lparr>externalId = ExternalId apiAudit, slotNumber = SlotNumber apiAudit,
      primaryBarcode = PrimaryBarcode apiAudit,
      warehouseLogistics = WarehouseLogistics apiAudit, comments = Comments apiAudit,
      dateReceived = DateReceived apiAudit, timeReceived = TimeReceived apiAudit,
      auditors = Auditors apiAudit, warehouseLocation = WarehouseLocation apiAudit,
      synced = Some (Synced apiAudit = Some 1)\<rparr>"

definition transformApiAuditsToAudits :: "'a ApiAuditRecord_scheme list \<Rightarrow> AuditRecord list" where
  "transformApiAuditsToAudits apiAudits = map transformApiAuditToAudit apiAudits"

text \<open>\<^verbatim>\<open>transformCreateRequestToApiRequest\<close> tests \<^verbatim>\<open>'SlotNumber' in request\<close> to tell
  a stored record from a create request; the argument is the tagged union of the two.\<close>

fun transformCreateRequestToApiRequest ::
  "CreateAuditRequest + OfflineAuditItem \<Rightarrow> CreateAuditRequest" where
  "transformCreateRequestToApiRequest (Inr request) =
     \<lparr>req_slotNumber = SlotNumber request, req_primaryBarcode = PrimaryBarcode request,
      req_warehouseLogistics = WarehouseLogistics request, req_comments = Comments request,
      req_auditors = Auditors request, req_warehouseLocation = WarehouseLocation request\<rparr>"
| "transformCreateRequestToApiRequest (Inl request) =
     \<lparr>req_slotNumber = req_slotNumber request, req_primaryBarcode = req_primaryBarcode request,
      req_warehouseLogistics = req_warehouseLogistics request,
      req_comments = req_comments request, req_auditors = req_auditors request,
      req_warehouseLocation = req_warehouseLocation request\<rparr>"


definition isValidGTIN :: "string \<Rightarrow> bool" where
  "isValidGTIN barcode =
     (let digits = filter is_digit barcode
      in if length digits \<notin> {8, 12, 13, 14} then False else length digits \<ge> 8)"

definition validateAuditData :: "'a CreateAuditRequest_scheme \<Rightarrow> string list" where
  "validateAuditData audit =
     (if trim (req_slotNumber audit) = [] then [''Slot number is required''] else []) @
     (if trim (req_primaryBarcode audit) = [] then [''Primary barcode is required''] else []) @
     (if trim (req_warehouseLogistics audit) = []
      then [''Warehouse logistics is required''] else []) @
     (if trim (req_auditors audit) = [] then [''Auditor name is required''] else []) @
     (if trim (req_warehouseLocation audit) = []
      then [''Warehouse location is required''] else []) @
     (if req_primaryBarcode audit \<noteq> [] \<and> \<not> isValidGTIN (req_primaryBarcode audit)
      then [''Invalid barcode format''] else [])"

subsection \<open>\<^verbatim>\<open>AuditActionService\<close>: the orchestrator\<close>

text \<open>An error object as the orchestrator inspects it: the properties \<^verbatim>\<open>error\<close>,
  \<^verbatim>\<open>message\<close>, \<^verbatim>\<open>status\<close> and \<^verbatim>\<open>serverAudit\<close>, each of which may be missing.\<close>

record ApiError =
  e_error :: "string option"
  e_message :: "string option"
  e_status :: "int option"
  e_serverAudit :: "ApiAuditRecord option"

text \<open>The calls made to \<^verbatim>\<open>AuditApiService\<close>, in the order they are made.\<close>

datatype remote_call =
    ApiGetAudits
  | ApiCreateAudit CreateAuditRequest
  | ApiUpdateAudit string CreateAuditRequest
  | ApiDeleteAudit string

record system =
  store :: audit_store
  ui :: AuditState
  sync :: SyncState
  calls :: "remote_call list"

definition system_initial :: "audit_store \<Rightarrow> system" where
  "system_initial st = \<lparr>store = st, ui = state_initial, sync = sync_initial, calls = []\<rparr>"

text \<open>\<^verbatim>\<open>`${error.message}`\<close> and \<^verbatim>\<open>error?.error || fallback\<close>.\<close>

definition template_str :: "string option \<Rightarrow> string" where
  "template_str v = (case v of None \<Rightarrow> ''undefined'' | Some m \<Rightarrow> m)"

definition or_default :: "string option \<Rightarrow> string \<Rightarrow> string" where
  "or_default v d = (if truthy v then the v else d)"

definition updatePendingCount :: "system \<Rightarrow> system" where
  "updatePendingCount s =
     s\<lparr>sync := setPendingRecordsCount (int (length (getPendingItems (store s)))) (sync s)\<rparr>"

text \<open>\<^verbatim>\<open>serverAudits.map(audit => saveItem(audit, 'synced'))\<close>, awaited together.\<close>

definition saveAllSynced :: "clock \<Rightarrow> ApiAuditRecord list \<Rightarrow> audit_store \<Rightarrow> audit_store" where
  "saveAllSynced env serverAudits st =
     foldl (\<lambda>acc audit. snd (saveItem env audit synced_st acc)) st serverAudits"

definition loadFromServerWithFallback ::
  "clock \<Rightarrow> ApiError + ApiAuditRecord list \<Rightarrow> system \<Rightarrow> system" where
  "loadFromServerWithFallback env fetch s =
     (let s0 = s\<lparr>calls := calls s @ [ApiGetAudits]\<rparr>
      in case fetch of
           Inr serverAudits \<Rightarrow>
             (let audits = transformApiAuditsToAudits serverAudits;
                  s1 = s0\<lparr>ui := setAudits audits (ui s0)\<rparr>;
                  s2 = s1\<lparr>store := saveAllSynced env serverAudits (store s1)\<rparr>
              in s2\<lparr>ui := setLoading False (ui s2)\<rparr>)
         | Inl err \<Rightarrow>
             s0\<lparr>ui := setLoading False
                      (setError (Some ''Failed to load audit records from server'') (ui s0))\<rparr>)"

definition backgroundSyncFromServer ::
  "clock \<Rightarrow> ApiError + ApiAuditRecord list \<Rightarrow> system \<Rightarrow> system" where
  "backgroundSyncFromServer env fetch s =
     (let s0 = s\<lparr>sync := setCurrentOperation (Some op_fetch) None
                            (setSyncStatus (now env) st_syncing (sync s)),
                 calls := calls s @ [ApiGetAudits]\<rparr>;
          s3 = (case fetch of
                  Inr serverAudits \<Rightarrow>
                    (let s1 = s0\<lparr>store := saveAllSynced env serverAudits (store s0)\<rparr>;
                         audits = transformApiAuditsToAudits serverAudits;
                         s2 = s1\<lparr>ui := setAudits audits (ui s1)\<rparr>
                     in s2\<lparr>sync := setSyncStatus (now env) st_success (sync s2)\<rparr>)
                | Inl err \<Rightarrow>
                    s0\<lparr>sync := setSyncError (Some ''Failed to sync with server'') (sync s0)\<rparr>)
      in updatePendingCount
           (s3\<lparr>ui := setLoading False (ui s3),
               sync := setCurrentOperation None None (sync s3)\<rparr>))"

definition loadFromStorage ::
  "clock \<Rightarrow> bool \<Rightarrow> ApiError + ApiAuditRecord list \<Rightarrow> system \<Rightarrow> system" where
  "loadFromStorage env online fetch s =
     (let offlineItems = getAllItems (store s)
      in if length offlineItems = 0 \<and> online
         then loadFromServerWithFallback env fetch s
         else
           (let audits = map transformApiAuditToAudit offlineItems;
                s1 = updatePendingCount (s\<lparr>ui := setAudits audits (ui s)\<rparr>)
            in if online then backgroundSyncFromServer env fetch s1
               else s1\<lparr>ui := setLoading False (ui s1)\<rparr>))"

definition loadAudits ::
  "clock \<Rightarrow> bool \<Rightarrow> ApiError + ApiAuditRecord list \<Rightarrow> system \<Rightarrow> system" where
  "loadAudits env online fetch s =
     loadFromStorage env online fetch (s\<lparr>ui := state_clearError (setLoading True (ui s))\<rparr>)"

definition syncCreateToServer ::
  "clock \<Rightarrow> ApiError + ApiAuditRecord \<Rightarrow> ApiAuditRecord \<Rightarrow> CreateAuditRequest \<Rightarrow>
     system \<Rightarrow> system" where
  "syncCreateToServer env remote optimisticAudit apiRequest s =
     (let s0 = s\<lparr>sync := setCurrentOperation (Some op_create) (Some (ExternalId optimisticAudit))
                            (setSyncStatus (now env) st_syncing (sync s)),
                 calls := calls s @ [ApiCreateAudit apiRequest]\<rparr>;
          s3 = (case remote of
                  Inr serverAudit \<Rightarrow>
                    (let s1 = s0\<lparr>store := removeItem (ExternalId optimisticAudit) (store s0)\<rparr>;
                         s2 = s1\<lparr>store := snd (saveItem env serverAudit synced_st (store s1))\<rparr>;
                         domainAudit = transformApiAuditToAudit serverAudit
                     in s2\<lparr>ui := state_updateAudit domainAudit (ui s2),
                           sync := setSyncStatus (now env) st_success (sync s2)\<rparr>)
                | Inl err \<Rightarrow>
                    s0\<lparr>sync := setSyncError
                                 (Some (''Failed to sync create: '' @ template_str (e_message err)))
                                 (sync s0)\<rparr>)
      in updatePendingCount
           (s3\<lparr>ui := setLoading False (ui s3),
               sync := setCurrentOperation None None (sync s3)\<rparr>))"

text \<open>\<^verbatim>\<open>createAudit(request)\<close>. \<open>online\<close> is the network signal when the save has
  completed, \<open>storage_ok\<close> says whether the save succeeded and \<open>remote\<close> is the answer
  of the remote create, read only when the call is made.\<close>

definition createAudit ::
  "clock \<Rightarrow> bool \<Rightarrow> bool \<Rightarrow> ApiError + ApiAuditRecord \<Rightarrow> CreateAuditRequest \<Rightarrow>
     system \<Rightarrow> system" where
  "createAudit env online storage_ok remote request s =
     (let validationErrors = validateAuditData request
      in if length validationErrors > 0
         then s\<lparr>ui := setError (Some (join_comma validationErrors)) (ui s)\<rparr>
         else
           (let s0 = s\<lparr>ui := state_clearError (setLoading True (ui s))\<rparr>;
                apiRequest = transformCreateRequestToApiRequest (Inl request);
                optimisticAudit =
                  \<lparr>ExternalId = ''local_'' @ dec (now env) @ ''_'' @ rnd env,
                   SlotNumber = req_slotNumber apiRequest,
                   PrimaryBarcode = req_primaryBarcode apiRequest,
                   WarehouseLogistics = req_warehouseLogistics apiRequest,
                   Comments = req_comments apiRequest,
                   DateReceived = today env,
                   TimeReceived = timeOfDay env,
                   Auditors = req_auditors apiRequest,
                   WarehouseLocation = req_warehouseLocation apiRequest,
                   Synced = Some 0\<rparr>
            in if storage_ok
               then
                 (let (savedAudit, st1) = saveItem env optimisticAudit pending_st (store s0);
                      domainAudit = transformApiAuditToAudit savedAudit;
                      s1 = updatePendingCount
                             (s0\<lparr>store := st1, ui := addAudit domainAudit (ui s0)\<rparr>)
                  in if online then syncCreateToServer env remote optimisticAudit apiRequest s1
                     else s1\<lparr>ui := setLoading False (ui s1)\<rparr>)
               else
                 s0\<lparr>ui := setLoading False
                          (setError (Some (or_default None ''Failed to create audit record''))
                             (ui s0))\<rparr>))"


definition syncDeleteToServer :: "clock \<Rightarrow> ApiError + unit \<Rightarrow> string \<Rightarrow> system \<Rightarrow> system" where
  "syncDeleteToServer env remote k s =
     (let s0 = s\<lparr>sync := setCurrentOperation (Some op_delete) (Some k)
                            (setSyncStatus (now env) st_syncing (sync s)),
                 calls := calls s @ [ApiDeleteAudit k]\<rparr>;
          s2 = (case remote of
                  Inr u \<Rightarrow>
                    (let s1 = s0\<lparr>store := removeItem k (store s0)\<rparr>
                     in s1\<lparr>sync := setSyncStatus (now env) st_success (sync s1)\<rparr>)
                | Inl err \<Rightarrow>
                    s0\<lparr>sync := setSyncError
                                 (Some (''Failed to sync delete: '' @ template_str (e_message err)))
                                 (sync s0)\<rparr>)
      in updatePendingCount
           (s2\<lparr>ui := setLoading False (ui s2),
               sync := setCurrentOperation None None (sync s2)\<rparr>))"

text \<open>\<^verbatim>\<open>restoreDeletedAudit(id)\<close> ignores \<open>id\<close> and reloads everything.\<close>

definition restoreDeletedAudit ::
  "clock \<Rightarrow> bool \<Rightarrow> ApiError + ApiAuditRecord list \<Rightarrow> string \<Rightarrow> system \<Rightarrow> system" where
  "restoreDeletedAudit env online fetch k s = loadAudits env online fetch s"

text \<open>\<^verbatim>\<open>deleteAudit(id)\<close>. \<open>storage_ok\<close> says whether the soft delete in the store
  succeeded, \<open>remote\<close> is the answer of the remote delete and \<open>fetch\<close> the answer to the
  reload that \<^verbatim>\<open>restoreDeletedAudit\<close> starts; the last two are read only when the
  calls are made.\<close>

definition deleteAudit ::
  "clock \<Rightarrow> bool \<Rightarrow> bool \<Rightarrow> ApiError + unit \<Rightarrow> ApiError + ApiAuditRecord list \<Rightarrow> string \<Rightarrow>
     system \<Rightarrow> system" where
  "deleteAudit env online storage_ok remote fetch k s =
     (let s0 = s\<lparr>ui := removeAudit k (state_clearError (setLoading True (ui s)))\<rparr>
      in if storage_ok
         then
           (let s1 = updatePendingCount (s0\<lparr>store := deleteItem env k (store s0)\<rparr>)
            in if online then syncDeleteToServer env remote k s1
               else s1\<lparr>ui := setLoading False (ui s1)\<rparr>)
         else
           (let s1 = restoreDeletedAudit env online fetch k s0
            in s1\<lparr>ui := setLoading False
                         (setError (Some (or_default None ''Failed to delete audit record''))
                            (ui s1))\<rparr>))"

subsection \<open>Manual synchronisation\<close>

text \<open>The closure variables \<^verbatim>\<open>processed\<close> and \<^verbatim>\<open>total\<close> of
  \<^verbatim>\<open>processPendingAudits\<close>.\<close>

record sync_run =
  processed :: nat
  total :: nat

text \<open>The remote call \<^verbatim>\<open>processPendingAudits\<close> makes for one pending record and for one
  deleted record.\<close>

definition pending_call :: "OfflineAuditItem \<Rightarrow> remote_call" where
  "pending_call audit =
     (let apiRequest = transformCreateRequestToApiRequest (Inr audit)
      in if startsWith (ExternalId audit) ''local_''
         then ApiCreateAudit apiRequest
         else ApiUpdateAudit (ExternalId audit) apiRequest)"

definition deleted_call :: "OfflineAuditItem \<Rightarrow> remote_call" where
  "deleted_call audit = ApiDeleteAudit (ExternalId audit)"

definition processPendingAudits ::
  "OfflineAuditItem list \<Rightarrow> OfflineAuditItem list \<Rightarrow> system \<Rightarrow> system \<times> sync_run" where
  "processPendingAudits pendingItems deletedItems s =
     (s\<lparr>calls := calls s @ map pending_call pendingItems @ map deleted_call deletedItems\<rparr>,
      \<lparr>processed = 0, total = length pendingItems + length deletedItems\<rparr>)"

text \<open>\<^verbatim>\<open>syncToServer()\<close> returns the new state and, when it has dispatched calls, the
  counters their callbacks share.\<close>

definition syncToServer :: "clock \<Rightarrow> bool \<Rightarrow> system \<Rightarrow> system \<times> sync_run option" where
  "syncToServer env online s =
     (if \<not> online
      then (s\<lparr>sync := setSyncError (Some ''Cannot sync: offline'') (sync s)\<rparr>, None)
      else if isSyncing (sync s) then (s, None)
      else
        (let s0 = s\<lparr>sync := setCurrentOperation (Some op_fetch) None
                               (setSyncStatus (now env) st_syncing (sync s))\<rparr>;
             pendingItems = getPendingItems (store s0);
             deletedItems = getDeletedItems (store s0);
             totalItems = length pendingItems + length deletedItems
         in if totalItems = 0
            then (s0\<lparr>sync := setCurrentOperation None None
                                (setSyncStatus (now env) st_success (sync s0))\<rparr>, None)
            else (let (s1, r) = processPendingAudits pendingItems deletedItems s0
                  in (s1, Some r))))"

definition handleSyncSuccess :: "clock \<Rightarrow> string \<Rightarrow> ApiAuditRecord \<Rightarrow> system \<Rightarrow> system" where
  "handleSyncSuccess env localId serverAudit s =
     (if startsWith localId ''local_''
      then
        (let s1 = s\<lparr>store := removeItem localId (store s)\<rparr>;
             s2 = s1\<lparr>store := snd (saveItem env serverAudit synced_st (store s1))\<rparr>
         in s2\<lparr>ui := state_updateAudit (transformApiAuditToAudit serverAudit) (ui s2)\<rparr>)
      else
        (let s1 = s\<lparr>store := markAsSynced env localId (store s)\<rparr>
         in s1\<lparr>ui := state_updateAudit (transformApiAuditToAudit serverAudit) (ui s1)\<rparr>))"

definition isConflictError :: "ApiError \<Rightarrow> bool" where
  "isConflictError err = (e_serverAudit err \<noteq> None \<and> e_status err = Some 409)"

definition handleConflict :: "clock \<Rightarrow> string \<Rightarrow> ApiAuditRecord \<Rightarrow> system \<Rightarrow> system" where
  "handleConflict env localId serverAudit s =
     (case getItem localId (store s) of
        None \<Rightarrow> s
      | Some localAudit \<Rightarrow>
          (case detectConflict (now env) (ApiAuditRecord.truncate localAudit) serverAudit
                  (x_lastModified localAudit) of
             None \<Rightarrow> s
           | Some conflict \<Rightarrow>
               (let resolution = resolveConflict conflict;
                    s1 = s\<lparr>sync := addConflict localId (c_localModified conflict)
                                       (c_serverModified conflict) (sync s)\<rparr>
                in if resolution = use_server
                   then
                     (let s2 = s1\<lparr>store := snd (saveItem env serverAudit synced_st (store s1))\<rparr>;
                          s3 = s2\<lparr>ui := state_updateAudit (transformApiAuditToAudit serverAudit)
                                             (ui s2)\<rparr>
                      in s3\<lparr>sync := markConflictResolved localId (sync s3)\<rparr>)
                   else s1\<lparr>sync := markConflictResolved localId (sync s1)\<rparr>)))"

definition handleSyncError :: "clock \<Rightarrow> string \<Rightarrow> ApiError \<Rightarrow> system \<Rightarrow> system" where
  "handleSyncError env auditId err s =
     (if isConflictError err then handleConflict env auditId (the (e_serverAudit err)) s else s)"







subsection \<open>Sequences of operations\<close>




text \<open>The external ids shown in the active view, and the property that no record of the
  view is stored with status deleted.\<close>

definition view_ids :: "system \<Rightarrow> string set" where
  "view_ids s = externalId ` set (audits (ui s))"



definition visible_ok :: "string set \<Rightarrow> audit_store \<Rightarrow> bool" where
  "visible_ok V st = (\<forall>it \<in> set st. ExternalId it \<in> V \<longrightarrow> x_status it \<noteq> deleted_st)"


subsection \<open>Concrete data used in the examples\<close>

definition ex_server :: ApiAuditRecord where
  "ex_server =
     \<lparr>ExternalId = ''5'', SlotNumber = ''A-001'', PrimaryBarcode = ''12345678'',
      WarehouseLogistics = ''Inbound'', Comments = ''ok'', DateReceived = ''2024-01-15'',
      TimeReceived = ''10:30:00'', Auditors = ''Ann'', WarehouseLocation = ''Zone 1'',
      Synced = Some 1\<rparr>"

definition ex_edited :: ApiAuditRecord where
  "ex_edited = ex_server\<lparr>Comments := ''changed''\<rparr>"

definition ex_clock :: clock where
  "ex_clock = \<lparr>now = 1705, rnd = ''k3j9x0abc'', today = ''2024-01-15'', timeOfDay = ''10:30:00''\<rparr>"

definition ex_request :: CreateAuditRequest where
  "ex_request =
     \<lparr>req_slotNumber = ''A-001'', req_primaryBarcode = ''12345678'',
      req_warehouseLogistics = ''Inbound'', req_comments = ''ok'', req_auditors = ''Ann'',
      req_warehouseLocation = ''Zone 1''\<rparr>"

definition ex_error :: ApiError where
  "ex_error =
     \<lparr>e_error = Some ''Failed to delete audit record'', e_message = None, e_status = Some 500,
      e_serverAudit = None\<rparr>"

text \<open>The state after a first load, online, of a remote source that holds \<open>ex_server\<close>.\<close>

definition ex_loaded :: system where
  "ex_loaded = loadAudits ex_clock True (Inr [ex_server]) (system_initial [])"

text \<open>A state in which a synchronisation is in progress.\<close>

definition ex_syncing :: system where
  "ex_syncing = (system_initial [])\<lparr>sync := setSyncStatus 0 st_syncing sync_initial\<rparr>"


section \<open>Conflict detection and resolution\<close>



text \<open>
  Claim C4. \<^verbatim>\<open>resolveConflict\<close> answers use-server when the server timestamp is the
  later one, use-local when the local timestamp is the later one, and use-server when the
  two are equal.
\<close>

theorem resolveConflict_last_write_wins:
  "(c_serverModified c > c_localModified c \<longrightarrow> resolveConflict c = use_server) \<and>
   (c_localModified c > c_serverModified c \<longrightarrow> resolveConflict c = use_local) \<and>
   (c_localModified c = c_serverModified c \<longrightarrow> resolveConflict c = use_server)"
  by (simp add: resolveConflict_def)

theorem resolveConflict_last_write_wins_witness:
  "resolveConflict \<lparr>c_localAudit = ex_edited, c_serverAudit = ex_server,
        c_localModified = 10, c_serverModified = 20\<rparr> = use_server \<and>
   resolveConflict \<lparr>c_localAudit = ex_edited, c_serverAudit = ex_server,
        c_localModified = 20, c_serverModified = 10\<rparr> = use_local \<and>
   resolveConflict \<lparr>c_localAudit = ex_edited, c_serverAudit = ex_server,
        c_localModified = 10, c_serverModified = 10\<rparr> = use_server"
  using
    resolveConflict_last_write_wins [of "\<lparr>c_localAudit = ex_edited, c_serverAudit = ex_server,
        c_localModified = 10, c_serverModified = 20\<rparr>"]
    resolveConflict_last_write_wins [of "\<lparr>c_localAudit = ex_edited, c_serverAudit = ex_server,
        c_localModified = 20, c_serverModified = 10\<rparr>"]
    resolveConflict_last_write_wins [of "\<lparr>c_localAudit = ex_edited, c_serverAudit = ex_server,
        c_localModified = 10, c_serverModified = 10\<rparr>"]
  by simp

text \<open>
  Claim C5 says that two invocations of \<^verbatim>\<open>detectConflict\<close> on the same local record,
  remote record and local modification time always decide the same, whenever they run.
  The function reads the clock: for the same three inputs it reports a conflict at clock
  reading 5 and none at clock reading 20.
\<close>

theorem detectConflict_clock_counterexample:
  "detectConflict 5 ex_edited ex_server 10 \<noteq> None \<and>
   detectConflict 20 ex_edited ex_server 10 = None"
  by (simp add: detectConflict_def ex_edited_def ex_server_def)

text \<open>
  Claim C5, amended. For the same local record, remote record and local modification time
  \<open>lm\<close>, two invocations of \<^verbatim>\<open>detectConflict\<close> at clock readings \<open>t1\<close> and \<open>t2\<close>
  take the same decision (conflict or none) whenever the two readings lie on the same side
  of \<open>lm\<close>; they return the same value (none) whenever both readings have reached
  \<open>lm\<close>, and the same value whenever the readings are equal.
\<close>

theorem detectConflict_same_side:
  "((t1 < lm) = (t2 < lm) \<longrightarrow>
      (detectConflict t1 la sa lm = None) = (detectConflict t2 la sa lm = None)) \<and>
   (lm \<le> t1 \<and> lm \<le> t2 \<longrightarrow> detectConflict t1 la sa lm = detectConflict t2 la sa lm) \<and>
   (t1 = t2 \<longrightarrow> detectConflict t1 la sa lm = detectConflict t2 la sa lm)"
  by (auto simp: detectConflict_def Let_def)

theorem detectConflict_same_side_witness:
  "(detectConflict 5 ex_edited ex_server 10 = None) =
     (detectConflict 7 ex_edited ex_server 10 = None) \<and>
   detectConflict 20 ex_edited ex_server 10 = detectConflict 30 ex_edited ex_server 10 \<and>
   detectConflict 8 ex_edited ex_server 10 = detectConflict 8 ex_edited ex_server 10"
  using detectConflict_same_side [of 5 10 7 ex_edited ex_server]
    detectConflict_same_side [of 20 10 30 ex_edited ex_server]
    detectConflict_same_side [of 8 8 10 ex_edited ex_server]
  by simp

section \<open>The synchronisation state\<close>

text \<open>
  Claim C10 says that after every sequence of mutation calls of \<^verbatim>\<open>SyncStateService\<close>
  a status of success comes with a null error, because a non-null error forces the status
  to error. \<^verbatim>\<open>setSyncError\<close> tests \<^verbatim>\<open>if (error)\<close>, which is false for the empty
  string: after \<^verbatim>\<open>setSyncStatus('success')\<close> and \<^verbatim>\<open>setSyncError('')\<close> the status is
  still success, the stored error is the empty string, not null, and \<^verbatim>\<open>hasError\<close>
  (which tests \<^verbatim>\<open>!== null\<close>) is true.
\<close>

theorem setSyncError_empty_keeps_success:
  "syncStatus (sync_run_calls [SetSyncStatus 1 st_success, SetSyncError (Some [])]) = st_success \<and>
   syncError (sync_run_calls [SetSyncStatus 1 st_success, SetSyncError (Some [])]) = Some [] \<and>
   hasError (sync_run_calls [SetSyncStatus 1 st_success, SetSyncError (Some [])])"
  by (simp add: sync_run_calls_def sync_initial_def setSyncStatus_def setSyncError_def
      hasError_def)

text \<open>The empty message is the only way to break the invariant: every sequence of calls
  that never passes the empty string to \<^verbatim>\<open>setSyncError\<close> keeps it.\<close>

lemma sync_apply_success_no_error:
  assumes "syncStatus s = st_success \<longrightarrow> syncError s = None"
    and "c \<noteq> SetSyncError (Some [])"
  shows "syncStatus (sync_apply s c) = st_success \<longrightarrow> syncError (sync_apply s c) = None"
  using assms
  by (cases c)
     (auto simp: setSyncStatus_def setCurrentOperation_def setSyncError_def clearSyncError_def
        setPendingRecordsCount_def addConflict_def removeConflict_def markConflictResolved_def
        clearConflicts_def updateLastSyncTime_def sync_reset_def Let_def
        split: option.splits if_splits elim: truthy.elims)

lemma foldl_sync_apply_success_no_error:
  "(syncStatus s = st_success \<longrightarrow> syncError s = None) \<Longrightarrow>
   \<forall>c \<in> set cs. c \<noteq> SetSyncError (Some []) \<Longrightarrow>
   syncStatus (foldl sync_apply s cs) = st_success \<longrightarrow> syncError (foldl sync_apply s cs) = None"
proof (induction cs arbitrary: s)
  case Nil
  then show ?case by simp
next
  case (Cons c cs)
  have "syncStatus (sync_apply s c) = st_success \<longrightarrow> syncError (sync_apply s c) = None"
    using Cons.prems by (intro sync_apply_success_no_error) auto
  then show ?case using Cons.IH [of "sync_apply s c"] Cons.prems by simp
qed

lemma sync_success_no_error_unless_empty_message:
  "\<forall>c \<in> set cs. c \<noteq> SetSyncError (Some []) \<Longrightarrow>
   syncStatus (sync_run_calls cs) = st_success \<longrightarrow> syncError (sync_run_calls cs) = None"
  unfolding sync_run_calls_def
  by (rule foldl_sync_apply_success_no_error) (simp_all add: sync_initial_def)


section \<open>The durable store\<close>

lemma set_store_put:
  "set (store_put it st) = insert it {a \<in> set st. ExternalId a \<noteq> ExternalId it}"
  by (auto simp: store_put_def set_insort_key)

lemma keys_store_put:
  "ExternalId ` set (store_put it st) = insert (ExternalId it) (ExternalId ` set st)"
  by (auto simp: set_store_put) 



lemma filter_insort_key_new:
  "P x \<Longrightarrow> \<forall>y \<in> set xs. \<not> P y \<Longrightarrow> filter P (insort_key f x xs) = [x]"
  by (induction xs) auto

lemma filter_replace_key:
  "distinct (map f xs) \<Longrightarrow> \<exists>a \<in> set xs. f a = f x \<Longrightarrow>
   filter (\<lambda>a. f a = f x) (map (\<lambda>a. if f a = f x then x else a) xs) = [x]"
proof (induction xs)
  case Nil
  then show ?case by simp
next
  case (Cons a xs)
  show ?case
  proof (cases "f a = f x")
    case True
    from Cons.prems(1) have "f a \<notin> f ` set xs" by simp
    with True have "\<forall>b \<in> set xs. f b \<noteq> f x" by (metis imageI)
    then have "filter (\<lambda>a. f a = f x) (map (\<lambda>a. if f a = f x then x else a) xs) = []"
      by (induction xs) auto
    with True show ?thesis by simp
  next
    case False
    with Cons show ?thesis by auto
  qed
qed

lemma filter_key_store_put:
  "distinct (map ExternalId st) \<Longrightarrow>
   filter (\<lambda>a. ExternalId a = ExternalId it) (store_put it st) = [it]"
  by (auto simp: store_put_def filter_replace_key filter_insort_key_new)

lemma store_get_Some_key: "store_get k st = Some a \<Longrightarrow> ExternalId a = k \<and> a \<in> set st"
  by (auto simp: store_get_def find_Some_iff)

lemma store_get_None_key: "store_get k st = None \<Longrightarrow> \<forall>a \<in> set st. ExternalId a \<noteq> k"
  by (auto simp: store_get_def find_None_iff)

lemma set_deleteItem:
  "set (deleteItem env k st) =
     (case store_get k st of
        None \<Rightarrow> set st
      | Some a \<Rightarrow> insert (a\<lparr>x_status := deleted_st, x_lastModified := now env\<rparr>)
                    {b \<in> set st. ExternalId b \<noteq> k})"
  by (auto simp: deleteItem_def set_store_put split: option.splits dest: store_get_Some_key)

lemma deleteItem_status:
  "it \<in> set (deleteItem env k st) \<Longrightarrow> ExternalId it = k \<Longrightarrow> x_status it = deleted_st"
  by (auto simp: set_deleteItem split: option.splits dest: store_get_None_key)

lemma deleteItem_others:
  "ExternalId it \<noteq> k \<Longrightarrow> it \<in> set (deleteItem env k st) \<longleftrightarrow> it \<in> set st"
  by (auto simp: set_deleteItem split: option.splits dest: store_get_Some_key)

lemma keys_deleteItem: "ExternalId ` set (deleteItem env k st) = ExternalId ` set st"
  by (auto simp: deleteItem_def keys_store_put split: option.splits dest: store_get_Some_key)



lemma set_store_delete: "set (store_delete k st) = {a \<in> set st. ExternalId a \<noteq> k}"
  by (auto simp: store_delete_def)


lemma key_saveItem [simp]: "ExternalId (fst (saveItem env a status st)) = ExternalId a"
  and status_saveItem [simp]: "x_status (fst (saveItem env a status st)) = status"
  and snd_saveItem: "snd (saveItem env a status st) = store_put (fst (saveItem env a status st)) st"
  by (simp_all add: saveItem_def Let_def)







text \<open>How the store operations act on \<open>visible_ok\<close>.\<close>

lemma visible_ok_mono: "visible_ok V st \<Longrightarrow> W \<subseteq> V \<Longrightarrow> visible_ok W st"
  by (auto simp: visible_ok_def)


lemma visible_ok_store_put_hidden:
  "visible_ok V st \<Longrightarrow> ExternalId it \<notin> V \<Longrightarrow> visible_ok V (store_put it st)"
  by (auto simp: visible_ok_def set_store_put)

lemma visible_ok_store_put_insert:
  "visible_ok V st \<Longrightarrow> x_status it \<noteq> deleted_st \<Longrightarrow>
   visible_ok (insert (ExternalId it) V) (store_put it st)"
  by (auto simp: visible_ok_def set_store_put)


lemma visible_ok_saveItem_insert:
  "visible_ok V st \<Longrightarrow> status \<noteq> deleted_st \<Longrightarrow>
   visible_ok (insert (ExternalId a) V) (snd (saveItem env a status st))"
  using visible_ok_store_put_insert [of V st "fst (saveItem env a status st)"]
  by (simp add: snd_saveItem)




lemma visible_ok_saveAllSynced_gen:
  "visible_ok V st \<Longrightarrow> visible_ok (V \<union> ExternalId ` set as) (saveAllSynced env as st)"
  unfolding saveAllSynced_def
proof (induction as arbitrary: V st)
  case Nil
  then show ?case by simp
next
  case (Cons a as)
  have "visible_ok (insert (ExternalId a) V) (snd (saveItem env a synced_st st))"
    using Cons.prems by (simp add: visible_ok_saveItem_insert)
  from Cons.IH [OF this] show ?case by simp
qed

lemma visible_ok_empty [simp]: "visible_ok {} st"
  by (simp add: visible_ok_def)


lemma visible_ok_saveAllSynced:
  "visible_ok V st \<Longrightarrow> visible_ok V (saveAllSynced env as st)"
  by (rule visible_ok_mono [OF visible_ok_saveAllSynced_gen]) auto


section \<open>The active view\<close>

lemma ids_map_replace:
  "map externalId (map (\<lambda>a. if externalId a = externalId d then d else a) xs) = map externalId xs"
  by (induction xs) auto

lemma view_simps [simp]:
  "audits (setLoading b u) = audits u"
  "audits (setError e u) = audits u"
  "audits (state_clearError u) = audits u"
  "audits (setAudits as u) = as"
  "audits (addAudit a u) = audits u @ [a]"
  "externalId ` set (audits (state_updateAudit d u)) = externalId ` set (audits u)"
  "externalId ` set (audits (removeAudit k u)) = externalId ` set (audits u) - {k}"
  "externalId (transformApiAuditToAudit x) = ExternalId x"
proof -
  have "map externalId (audits (state_updateAudit d u)) = map externalId (audits u)"
    by (simp add: state_updateAudit_def ids_map_replace del: map_map)
  then show "externalId ` set (audits (state_updateAudit d u)) = externalId ` set (audits u)"
    by (metis set_map)
qed (auto simp: setLoading_def setError_def state_clearError_def setAudits_def addAudit_def
      removeAudit_def transformApiAuditToAudit_def)

lemma updatePendingCount_simps [simp]:
  "store (updatePendingCount s) = store s" "ui (updatePendingCount s) = ui s"
  by (simp_all add: updatePendingCount_def)

lemma ids_transform [simp]:
  "externalId ` set (transformApiAuditsToAudits xs) = ExternalId ` set xs"
  "externalId ` transformApiAuditToAudit ` X = ExternalId ` X"
  by (auto simp: transformApiAuditsToAudits_def image_iff)





section \<open>Create\<close>

lemma dec_nat_digits: "set (dec_nat n) \<subseteq> set ''0123456789''"
proof (induction n rule: dec_nat.induct)
  case (1 n)
  show ?case
  proof (cases "n < 10")
    case True
    then have "''0123456789'' ! n \<in> set ''0123456789''"
      by (intro nth_mem) simp
    with True show ?thesis by (subst dec_nat.simps) simp
  next
    case False
    have "n mod 10 < length ''0123456789''" by simp
    then have "''0123456789'' ! (n mod 10) \<in> set ''0123456789''"
      by (rule nth_mem)
    with False 1 show ?thesis by (subst dec_nat.simps) simp
  qed
qed

lemma generateLocalId_not_decimal: "generateLocalId env \<noteq> dec_nat n"
proof
  assume "generateLocalId env = dec_nat n"
  moreover have "CHR ''l'' \<in> set (generateLocalId env)"
    by (simp add: generateLocalId_def)
  ultimately have "CHR ''l'' \<in> set (dec_nat n)" by simp
  with dec_nat_digits [of n] show False by auto
qed

lemma generateLocalId_prefix: "startsWith (generateLocalId env) ''local_''"
  by (simp add: startsWith_def generateLocalId_def)

lemma ex_request_valid: "validateAuditData ex_request = []"
  by (simp add: validateAuditData_def ex_request_def trim_def js_whitespace_def
      isValidGTIN_def is_digit_def)

text \<open>
  Claim C8. A valid create request issued while offline (the save in the store succeeds)
  makes no remote call and leaves exactly one stored record under the minted identifier:
  it has status pending, carries the fields of the request, is among the pending items
  and is appended to the active view; every other stored record is untouched. The minted
  identifier starts with \<^verbatim>\<open>local_\<close>, the prefix by which the orchestrator recognises a
  record the remote source has not confirmed, and is no decimal numeral (the identifiers
  the remote source assigns are decimal numerals).
\<close>

theorem createAudit_offline_pending:
  assumes "validateAuditData request = []"
    and "distinct (map ExternalId (store s))"
    and "s' = createAudit env False True remote request s"
  shows "calls s' = calls s \<and>
         startsWith (generateLocalId env) ''local_'' \<and>
         (\<forall>n. generateLocalId env \<noteq> dec_nat n) \<and>
         (\<exists>item. filter (\<lambda>a. ExternalId a = generateLocalId env) (store s') = [item] \<and>
                 x_status item = pending_st \<and>
                 x_localId item = generateLocalId env \<and>
                 transformCreateRequestToApiRequest (Inr item) = request \<and>
                 item \<in> set (getPendingItems (store s')) \<and>
                 audits (ui s') = audits (ui s) @ [transformApiAuditToAudit item]) \<and>
         {a \<in> set (store s'). ExternalId a \<noteq> generateLocalId env} =
           {a \<in> set (store s). ExternalId a \<noteq> generateLocalId env}"
proof -
  define opt where "opt =
     \<lparr>ExternalId = generateLocalId env, SlotNumber = req_slotNumber request,
      PrimaryBarcode = req_primaryBarcode request,
      WarehouseLogistics = req_warehouseLogistics request, Comments = req_comments request,
      DateReceived = today env, TimeReceived = timeOfDay env,
      Auditors = req_auditors request, WarehouseLocation = req_warehouseLocation request,
      Synced = Some 0\<rparr>"
  define item where "item = fst (saveItem env opt pending_st (store s))"
  have key: "ExternalId item = generateLocalId env"
    by (simp add: item_def saveItem_def opt_def Let_def)
  have st: "store s' = store_put item (store s)"
    using assms(1,3)
    by (simp add: createAudit_def item_def opt_def saveItem_def Let_def generateLocalId_def
        updatePendingCount_def)
  have vw: "audits (ui s') = audits (ui s) @ [transformApiAuditToAudit item]"
    using assms(1,3)
    by (simp add: createAudit_def item_def opt_def saveItem_def Let_def generateLocalId_def
        updatePendingCount_def addAudit_def setLoading_def state_clearError_def)
  have cl: "calls s' = calls s"
    using assms(1,3)
    by (simp add: createAudit_def saveItem_def Let_def updatePendingCount_def)
  have f: "filter (\<lambda>a. ExternalId a = generateLocalId env) (store s') = [item]"
    using filter_key_store_put [OF assms(2), of item] by (simp add: st key)
  have p: "x_status item = pending_st" "x_localId item = generateLocalId env"
    by (simp_all add: item_def saveItem_def opt_def Let_def generateLocalId_def)
  have r: "transformCreateRequestToApiRequest (Inr item) = request"
    by (simp add: item_def saveItem_def opt_def Let_def)
  have m: "item \<in> set (getPendingItems (store s'))"
    by (simp add: getPendingItems_def st set_store_put p)
  have o: "{a \<in> set (store s'). ExternalId a \<noteq> generateLocalId env} =
           {a \<in> set (store s). ExternalId a \<noteq> generateLocalId env}"
    by (auto simp: st set_store_put key)
  show ?thesis
    using cl f p r m vw o generateLocalId_prefix generateLocalId_not_decimal by blast
qed

theorem createAudit_offline_pending_witness:
  "calls (createAudit ex_clock False True (Inr ex_server) ex_request ex_loaded) = calls ex_loaded \<and>
   startsWith (generateLocalId ex_clock) ''local_'' \<and>
   (\<exists>item. filter (\<lambda>a. ExternalId a = generateLocalId ex_clock)
              (store (createAudit ex_clock False True (Inr ex_server) ex_request ex_loaded)) = [item] \<and>
           x_status item = pending_st)"
proof -
  have d: "distinct (map ExternalId (store ex_loaded))" by code_simp
  show ?thesis
    using createAudit_offline_pending
        [OF ex_request_valid d refl, where env = ex_clock and remote = "Inr ex_server"]
    by blast
qed

text \<open>
  Claim C1 says that after a create whose background remote create succeeds, the local
  identifier is gone and the identifier assigned by the server is present with status
  synced, in the store and in the active view. On an empty store and view, online, with
  the remote source answering with record 5: the store holds record 5 as synced and no
  record under the local identifier, but the view still shows the record under the local
  identifier and does not show record 5. \<^verbatim>\<open>syncCreateToServer\<close> calls
  \<^verbatim>\<open>stateService.updateAudit\<close> on the server record, which replaces only view records
  that already carry the server's identifier.
\<close>

theorem createAudit_success_view_keeps_local_id:
  "map externalId
     (audits (ui (createAudit ex_clock True True (Inr ex_server) ex_request (system_initial []))))
     = [''local_1705_k3j9x0abc''] \<and>
   ''5'' \<notin> view_ids (createAudit ex_clock True True (Inr ex_server) ex_request (system_initial [])) \<and>
   map (\<lambda>a. (ExternalId a, x_status a))
     (store (createAudit ex_clock True True (Inr ex_server) ex_request (system_initial [])))
     = [(''5'', synced_st)] \<and>
   syncStatus (sync (createAudit ex_clock True True (Inr ex_server) ex_request (system_initial [])))
     = st_success"
  by code_simp

text \<open>The same holds from every state: the store is reconciled, the view is not.\<close>

lemma createAudit_online_success_store:
  assumes "validateAuditData request = []"
    and "ExternalId serverAudit \<noteq> generateLocalId env"
    and "s' = createAudit env True True (Inr serverAudit) request s"
  shows "(\<forall>a \<in> set (store s'). ExternalId a \<noteq> generateLocalId env) \<and>
         (\<exists>a \<in> set (store s'). ExternalId a = ExternalId serverAudit \<and> x_status a = synced_st) \<and>
         (\<forall>a \<in> set (store s'). ExternalId a = ExternalId serverAudit \<longrightarrow> x_status a = synced_st)"
  using assms
  by (auto simp: createAudit_def syncCreateToServer_def saveItem_def Let_def generateLocalId_def
      updatePendingCount_def removeItem_def set_store_delete set_store_put)

lemma createAudit_online_success_view:
  assumes "validateAuditData request = []"
    and "ExternalId serverAudit \<noteq> generateLocalId env"
    and "s' = createAudit env True True (Inr serverAudit) request s"
  shows "generateLocalId env \<in> view_ids s' \<and>
         (ExternalId serverAudit \<in> view_ids s' \<longleftrightarrow> ExternalId serverAudit \<in> view_ids s)"
proof -
  have "map externalId (map (\<lambda>a. if externalId a = externalId d then d else a) xs)
          = map externalId xs" for d xs
    by (induction xs) auto
  then have "map externalId (audits (state_updateAudit d u)) = map externalId (audits u)" for d u
    by (simp add: state_updateAudit_def del: map_map)
  then have ids: "externalId ` set (audits (state_updateAudit d u)) = externalId ` set (audits u)"
    for d u
    by (metis set_map)
  have "view_ids s' = insert (generateLocalId env) (view_ids s)"
    using assms(1,3)
    by (simp add: createAudit_def syncCreateToServer_def saveItem_def Let_def generateLocalId_def
        updatePendingCount_def view_ids_def ids addAudit_def setLoading_def state_clearError_def
        transformApiAuditToAudit_def)
  with assms(2) show ?thesis by auto
qed

section \<open>Delete\<close>

text \<open>
  Claim C2 says that when a delete is performed online and the background remote delete
  fails, the deleted record is restored to the active view. In the state \<open>ex_loaded\<close>
  the view shows record 5; after \<^verbatim>\<open>deleteAudit('5')\<close>, online, with the remote delete
  failing, the view does not show it: the error handler of \<^verbatim>\<open>syncDeleteToServer\<close>
  records the sync error and keeps the record as a pending deletion, and
  \<^verbatim>\<open>restoreDeletedAudit\<close> is reached only when the soft delete in the store fails.
\<close>

theorem deleteAudit_remote_failure_counterexample:
  "transformApiAuditToAudit ex_server \<in> set (audits (ui ex_loaded)) \<and>
   transformApiAuditToAudit ex_server \<notin>
     set (audits (ui (deleteAudit ex_clock True True (Inl ex_error) (Inr [ex_server]) ''5'' ex_loaded)))"
  by code_simp

text \<open>
  Claim C2, amended. When a delete is performed online (the soft delete in the store
  succeeds) and the background remote delete fails, the record stays out of the active
  view, every stored record under that identifier has status deleted (a pending deletion
  for a later manual sync), no other key enters or leaves the store, exactly one remote
  call (the delete) has been made, and the failure is surfaced as the sync error with
  the sync status error.
\<close>

theorem deleteAudit_remote_failure_keeps_deleted:
  assumes "s' = deleteAudit env True True (Inl err) fetch k s"
  shows "k \<notin> view_ids s' \<and>
         audits (ui s') = filter (\<lambda>a. externalId a \<noteq> k) (audits (ui s)) \<and>
         (\<forall>it \<in> set (store s'). ExternalId it = k \<longrightarrow> x_status it = deleted_st) \<and>
         ExternalId ` set (store s') = ExternalId ` set (store s) \<and>
         syncStatus (sync s') = st_error \<and>
         syncError (sync s') = Some (''Failed to sync delete: '' @ template_str (e_message err)) \<and>
         calls s' = calls s @ [ApiDeleteAudit k]"
  using assms
  by (auto simp: deleteAudit_def syncDeleteToServer_def updatePendingCount_def view_ids_def
      removeAudit_def state_clearError_def setLoading_def setSyncError_def setSyncStatus_def
      setCurrentOperation_def setPendingRecordsCount_def Let_def keys_deleteItem
      dest: deleteItem_status)

theorem deleteAudit_remote_failure_keeps_deleted_witness:
  "''5'' \<notin> view_ids (deleteAudit ex_clock True True (Inl ex_error) (Inr [ex_server]) ''5'' ex_loaded) \<and>
   x_status (hd (store (deleteAudit ex_clock True True (Inl ex_error) (Inr [ex_server]) ''5'' ex_loaded)))
     = deleted_st \<and>
   syncStatus (sync (deleteAudit ex_clock True True (Inl ex_error) (Inr [ex_server]) ''5'' ex_loaded))
     = st_error \<and>
   syncError (sync (deleteAudit ex_clock True True (Inl ex_error) (Inr [ex_server]) ''5'' ex_loaded))
     = Some ''Failed to sync delete: undefined''"
proof -
  let ?s' = "deleteAudit ex_clock True True (Inl ex_error) (Inr [ex_server]) ''5'' ex_loaded"
  have m: "hd (store ?s') \<in> set (store ?s')" "ExternalId (hd (store ?s')) = ''5''"
    by code_simp+
  have t: "template_str (e_message ex_error) = ''undefined''"
    by (simp add: template_str_def ex_error_def)
  from deleteAudit_remote_failure_keeps_deleted
      [OF refl, where env = ex_clock and err = ex_error and fetch = "Inr [ex_server]"
         and k = "''5''" and s = ex_loaded]
  show ?thesis using m t by simp
qed

text \<open>The reload of \<^verbatim>\<open>restoreDeletedAudit\<close> is reached when the soft delete in the store
  fails: offline, the view is then rebuilt from the store, in which the record is still
  live.\<close>

lemma deleteAudit_storage_failure_reloads:
  assumes "s' = deleteAudit env False False remote fetch k s"
  shows "store s' = store s \<and>
         audits (ui s') = map transformApiAuditToAudit (getAllItems (store s)) \<and>
         calls s' = calls s \<and>
         error (ui s') = Some ''Failed to delete audit record''"
  using assms
  by (simp add: deleteAudit_def restoreDeletedAudit_def loadAudits_def loadFromStorage_def
      Let_def or_default_def setError_def setLoading_def updatePendingCount_def)

section \<open>Manual synchronisation\<close>

text \<open>
  Claim C7 says that \<^verbatim>\<open>syncToServer\<close>, invoked offline or while a sync is in progress,
  makes no remote call, does not touch the store and surfaces an error in both cases.
  Invoked online while a sync is in progress it returns without a word: the sync error
  stays null.
\<close>

theorem syncToServer_already_syncing_counterexample:
  "isSyncing (sync ex_syncing) \<and>
   syncError (sync (fst (syncToServer ex_clock True ex_syncing))) = None \<and>
   syncStatus (sync (fst (syncToServer ex_clock True ex_syncing))) = st_syncing"
  by (simp add: ex_syncing_def syncToServer_def isSyncing_def setSyncStatus_def sync_initial_def system_initial_def)

text \<open>
  Claim C7, amended. Invoked offline, \<^verbatim>\<open>syncToServer\<close> makes no remote call, leaves the
  store and the view as they are and surfaces the sync error \<^verbatim>\<open>Cannot sync: offline\<close>
  (status error). Invoked online while a sync is in progress, it changes nothing at all:
  no remote call, no storage mutation, and no error.
\<close>

theorem syncToServer_guards:
  "(\<not> online \<longrightarrow>
      store (fst (syncToServer env online s)) = store s \<and>
      calls (fst (syncToServer env online s)) = calls s \<and>
      ui (fst (syncToServer env online s)) = ui s \<and>
      syncError (sync (fst (syncToServer env online s))) = Some ''Cannot sync: offline'' \<and>
      syncStatus (sync (fst (syncToServer env online s))) = st_error \<and>
      snd (syncToServer env online s) = None) \<and>
   (online \<and> isSyncing (sync s) \<longrightarrow> syncToServer env online s = (s, None))"
  by (simp add: syncToServer_def setSyncError_def)

theorem syncToServer_guards_witness:
  "syncError (sync (fst (syncToServer ex_clock False ex_loaded))) = Some ''Cannot sync: offline'' \<and>
   calls (fst (syncToServer ex_clock False ex_loaded)) = calls ex_loaded \<and>
   store (fst (syncToServer ex_clock False ex_loaded)) = store ex_loaded \<and>
   syncToServer ex_clock True ex_syncing = (ex_syncing, None)"
proof -
  have "isSyncing (sync ex_syncing)"
    by (simp add: ex_syncing_def isSyncing_def setSyncStatus_def sync_initial_def system_initial_def)
  then show ?thesis
    using syncToServer_guards [where online = False and env = ex_clock and s = ex_loaded]
      syncToServer_guards [where online = True and env = ex_clock and s = ex_syncing]
    by simp
qed

lemma sync_handleSyncSuccess [simp]:
  "sync (handleSyncSuccess env k sa s) = sync s"
  "calls (handleSyncSuccess env k sa s) = calls s"
  by (simp_all add: handleSyncSuccess_def Let_def)

lemma sync_handleConflict [simp]:
  "syncStatus (sync (handleConflict env k sa s)) = syncStatus (sync s)"
  "calls (handleConflict env k sa s) = calls s"
  by (simp_all add: handleConflict_def Let_def addConflict_def markConflictResolved_def
      split: option.splits)

lemma sync_handleSyncError [simp]:
  "syncStatus (sync (handleSyncError env k err s)) = syncStatus (sync s)"
  "calls (handleSyncError env k err s) = calls s"
  by (simp_all add: handleSyncError_def)







section \<open>The active view never shows a deleted record\<close>

















end
